theory Spec2Isabelle
  imports Main "HOL-Library.Sublist"
begin

section \<open>States, errors and guards\<close>

text \<open>
  Modelled from the spec: the declarations of \<open>State\<close>, \<open>String\<close> and \<open>NewState\<close> are not part
  of fsm.go. The spec says a State wraps a string-like identity value, is built from a raw
  identity value only, exposes only the accessor \<open>ID\<close>, and that two States are equal iff
  their identity values are equal. fsm.go stores \<open>start.ID()\<close> in the \<open>string\<close> fields of
  \<open>T\<close>, so the identity is a Go string.
\<close>

type_synonym String = string

datatype State = NewState (ID: String)

text \<open>
  A Go \<open>error\<close> is used by fsm.go only through the test against nil and through
  \<open>Error()\<close>; a non-nil error is identified with its message, and nil is \<open>None\<close>.
\<close>

type_synonym error = string

text \<open>
  A call of a function value supplied by the caller either returns or never does
  (the spec: a Guard with no return).
\<close>

datatype 'a run = Stalls | Returns 'a

text \<open>
  \<open>type Guard func(start State, goal State) error\<close>. A guard is a pure function of its
  arguments, as the spec's data model has it; a guard that panics is not modelled.
\<close>

type_synonym Guard = "State \<Rightarrow> State \<Rightarrow> error option run"

text \<open>The three format strings, each applied by \<open>fmt.Errorf\<close> to string arguments (\<open>%s\<close>).\<close>

definition errTransitionFormat :: "string \<Rightarrow> string \<Rightarrow> error" where
  "errTransitionFormat a b = ''Cannot transition from '' @ a @ '' to '' @ b"

definition errNoRulesFormat :: "string \<Rightarrow> string \<Rightarrow> error" where
  "errNoRulesFormat a b = ''No rules found for '' @ a @ '' to '' @ b"

definition errGuardFailedFormat :: "string \<Rightarrow> string \<Rightarrow> string \<Rightarrow> error" where
  "errGuardFailedFormat a b reason = ''Guard failed from '' @ a @ '' to '' @ b @ '': '' @ reason"

section \<open>Transitions and rulesets\<close>

text \<open>
  \<open>Transition\<close> is an interface and a \<open>Ruleset\<close> is keyed by interface values, which Go
  compares by dynamic type and dynamic value. \<open>T a b\<close> is the struct \<open>T{O: a, E: b}\<close>.
  \<open>Other n origin exit\<close> stands for a comparable value of any other implementing type
  (another struct, or the pointer type \<open>*T\<close>): \<open>n\<close> names its dynamic type and value, and
  \<open>origin\<close> and \<open>exit\<close> are what its two methods return.
\<close>

datatype Transition = T string string | Other nat State State

fun Origin :: "Transition \<Rightarrow> State" where
  "Origin (T a b) = NewState a"
| "Origin (Other n origin exit) = origin"

fun Exit :: "Transition \<Rightarrow> State" where
  "Exit (T a b) = NewState b"
| "Exit (Other n origin exit) = exit"

text \<open>
  \<open>type Ruleset map[Transition][]Guard\<close>. A Go map value is either nil or a map; reading
  the nil map finds nothing, and assigning to an entry of the nil map panics.
\<close>

datatype Ruleset = Nil_Ruleset | Map_Ruleset "Transition \<rightharpoonup> Guard list"

datatype panic = NilDereference | NilMapAssignment

text \<open>The two-result read \<open>guards, ok := r[t]\<close>: \<open>None\<close> when \<open>ok\<close> is false.\<close>

fun lookup :: "Ruleset \<Rightarrow> Transition \<Rightarrow> Guard list option" where
  "lookup Nil_Ruleset t = None"
| "lookup (Map_Ruleset m) t = m t"

text \<open>The one-result read \<open>r[t]\<close>: the nil slice for a key that is absent.\<close>

definition index :: "Ruleset \<Rightarrow> Transition \<Rightarrow> Guard list" where
  "index r t = (case lookup r t of None \<Rightarrow> [] | Some guards \<Rightarrow> guards)"

text \<open>
  \<open>AddRule\<close>: one \<open>r[t] = append(r[t], guard)\<close> for each guard, in order. The map is
  changed in place; the model returns it.
\<close>

fun AddRule :: "Ruleset \<Rightarrow> Transition \<Rightarrow> Guard list \<Rightarrow> panic + Ruleset" where
  "AddRule r t [] = Inr r"
| "AddRule Nil_Ruleset t (guard # guards) = Inl NilMapAssignment"
| "AddRule (Map_Ruleset m) t (guard # guards) =
     AddRule (Map_Ruleset (m(t \<mapsto> index (Map_Ruleset m) t @ [guard]))) t guards"

text \<open>
  \<open>AddTransition\<close>: \<open>AddRule\<close> with one guard, the closure written in its body, which
  captures \<open>t\<close>. \<open>AddTransition_guard t\<close> is that closure.
\<close>

definition AddTransition_guard :: "Transition \<Rightarrow> Guard" where
  "AddTransition_guard t start goal =
     (if ID start \<noteq> ID (Origin t)
      then Returns (Some (errTransitionFormat (ID start) (ID goal)))
      else Returns None)"

definition AddTransition :: "Ruleset \<Rightarrow> Transition \<Rightarrow> panic + Ruleset" where
  "AddTransition r t = AddRule r t [AddTransition_guard t]"

text \<open>
  \<open>CreateRuleset\<close>: \<open>r := Ruleset{}\<close>, the empty map that is not nil, then the loop
  \<open>r.AddTransition(t)\<close> over the transitions.
\<close>

fun AddTransitions :: "Ruleset \<Rightarrow> Transition list \<Rightarrow> panic + Ruleset" where
  "AddTransitions r [] = Inr r"
| "AddTransitions r (t # transitions) =
     (case AddTransition r t of
        Inl p \<Rightarrow> Inl p
      | Inr r' \<Rightarrow> AddTransitions r' transitions)"

definition CreateRuleset :: "Transition list \<Rightarrow> panic + Ruleset" where
  "CreateRuleset transitions = AddTransitions (Map_Ruleset Map.empty) transitions"

section \<open>The permission check\<close>

text \<open>
  \<open>Permitted\<close> starts one goroutine per guard; each sends its guard's result on an
  unbuffered channel once the guard has returned, and a guard that never returns never
  sends. \<open>sends\<close> lists, in the order of the guard list, the results that will be sent.
\<close>

fun sends :: "Guard list \<Rightarrow> State \<Rightarrow> State \<Rightarrow> error option list" where
  "sends [] start goal = []"
| "sends (g # guards) start goal =
     (case g start goal of
        Stalls \<Rightarrow> sends guards start goal
      | Returns err \<Rightarrow> err # sends guards start goal)"

text \<open>
  Which of the pending sends a receive takes is the scheduler's choice. A schedule gives,
  for the \<open>k\<close>-th receive, a number that selects one of the pending sends (modulo how many
  there are), so every function is a schedule and every order of arrival has one.
\<close>

type_synonym schedule = "nat \<Rightarrow> nat"

definition remove_nth :: "nat \<Rightarrow> 'a list \<Rightarrow> 'a list" where
  "remove_nth i xs = take i xs @ drop (Suc i) xs"

text \<open>
  The loop \<open>for range guards\<close>: one receive per guard. With no send pending the receive
  blocks for ever; a non-nil error returns at once, wrapped by \<open>errGuardFailedFormat\<close>.
\<close>

fun receive ::
  "Guard list \<Rightarrow> schedule \<Rightarrow> nat \<Rightarrow> error option list \<Rightarrow> State \<Rightarrow> State \<Rightarrow> error option run"
where
  "receive [] sched k pending start goal = Returns None"
| "receive (g # guards) sched k pending start goal =
     (if pending = [] then Stalls
      else
        let i = sched k mod length pending in
        case pending ! i of
          Some err \<Rightarrow> Returns (Some (errGuardFailedFormat (ID start) (ID goal) err))
        | None \<Rightarrow> receive guards sched (Suc k) (remove_nth i pending) start goal)"

text \<open>
  \<open>Permitted\<close> returns the guards it has started as goroutines (each on \<open>(start, goal)\<close>)
  and how the call ends.
\<close>

definition Permitted ::
  "Ruleset \<Rightarrow> schedule \<Rightarrow> State \<Rightarrow> State \<Rightarrow> Guard list \<times> error option run"
where
  "Permitted r sched start goal =
     (let attempt = T (ID start) (ID goal) in
      case lookup r attempt of
        Some guards \<Rightarrow> (guards, receive guards sched 0 (sends guards start goal) start goal)
      | None \<Rightarrow> ([], Returns (Some (errNoRulesFormat (ID start) (ID goal)))))"

text \<open>Two schedules: the oldest pending send first, and the second pending send first.\<close>

definition oldest_first :: schedule where
  "oldest_first k = 0"

definition second_first :: schedule where
  "second_first k = 1"

text \<open>Three guards for concrete runs: one that allows, one that refuses, one that never returns.\<close>

definition passing :: Guard where
  "passing start goal = Returns None"

definition failing :: "string \<Rightarrow> Guard" where
  "failing reason start goal = Returns (Some reason)"

definition stalling :: Guard where
  "stalling start goal = Stalls"

section \<open>The machine\<close>

text \<open>
  \<open>Rules\<close> is a pointer to a Ruleset: \<open>None\<close> is the nil pointer, and \<open>Some Nil_Ruleset\<close> a
  pointer to a nil map.
\<close>

record Machine =
  Rules :: "Ruleset option"
  State :: State

text \<open>
  \<open>Transition\<close> of a Machine: the call \<open>m.Rules.Permitted\<close> dereferences \<open>m.Rules\<close>. The
  result is the returned error together with the machine after the call.
\<close>

definition Machine_Transition ::
  "Machine \<Rightarrow> schedule \<Rightarrow> State \<Rightarrow> panic + (error option \<times> Machine) run"
where
  "Machine_Transition m sched goal =
     (case Rules m of
        None \<Rightarrow> Inl NilDereference
      | Some r \<Rightarrow>
          Inr (case snd (Permitted r sched (State m) goal) of
                 Stalls \<Rightarrow> Stalls
               | Returns None \<Rightarrow> Returns (None, m\<lparr>State := goal\<rparr>)
               | Returns (Some err) \<Rightarrow> Returns (Some err, m)))"

text \<open>
  \<open>New\<close>: the options are applied in order to the zero Machine, whose \<open>Rules\<close> is nil.
  The zero value of \<open>State\<close> depends on the declaration that fsm.go lacks and is the
  parameter \<open>zero\<close>.
\<close>

definition New :: "State \<Rightarrow> (Machine \<Rightarrow> Machine) list \<Rightarrow> Machine" where
  "New zero opts = foldl (\<lambda>m opt. opt m) \<lparr>Rules = None, State = zero\<rparr> opts"

text \<open>An option function as callers write them: it sets the initial State.\<close>

definition WithState :: "State \<Rightarrow> Machine \<Rightarrow> Machine" where
  "WithState s m = m\<lparr>State := s\<rparr>"

section \<open>Facts about the model\<close>

lemma errNoRules_not_errGuardFailed:
  "errNoRulesFormat a b \<noteq> errGuardFailedFormat a' b' reason"
  by (simp add: errNoRulesFormat_def errGuardFailedFormat_def)

lemma set_sends: "set (sends gs start goal) = {e. \<exists>g\<in>set gs. g start goal = Returns e}"
  by (induction gs) (auto split: run.splits)

lemma length_sends:
  "\<forall>g\<in>set gs. g start goal \<noteq> Stalls \<Longrightarrow> length (sends gs start goal) = length gs"
  by (induction gs) (auto split: run.splits)

lemma length_remove_nth: "i < length xs \<Longrightarrow> length (remove_nth i xs) = length xs - 1"
  by (simp add: remove_nth_def)

lemma set_remove_nth_subset: "set (remove_nth i xs) \<subseteq> set xs"
  unfolding remove_nth_def by (auto dest: in_set_takeD in_set_dropD)

lemma set_remove_nth_keeps:
  assumes i: "i < length xs" and x: "x \<in> set xs" and ne: "x \<noteq> xs ! i"
  shows "x \<in> set (remove_nth i xs)"
proof -
  have "set xs = set (take i xs @ drop i xs)" by simp
  also have "drop i xs = xs ! i # drop (Suc i) xs"
    using i by (simp add: Cons_nth_drop_Suc)
  finally have "set xs = set (take i xs) \<union> ({xs ! i} \<union> set (drop (Suc i) xs))"
    by simp
  with x ne show ?thesis by (auto simp: remove_nth_def)
qed

lemma receive_all_nil:
  "length pending = length gs \<Longrightarrow> set pending \<subseteq> {None} \<Longrightarrow>
   receive gs sched k pending start goal = Returns None"
proof (induction gs arbitrary: k pending)
  case Nil
  then show ?case by simp
next
  case (Cons g gs)
  let ?i = "sched k mod length pending"
  from Cons.prems have ne: "pending \<noteq> []" by auto
  then have i: "?i < length pending" by simp
  then have "pending ! ?i \<in> set pending" by (rule nth_mem)
  with Cons.prems(2) have nil: "pending ! ?i = None" by blast
  have len: "length (remove_nth ?i pending) = length gs"
    using i Cons.prems by (simp add: length_remove_nth)
  have sub: "set (remove_nth ?i pending) \<subseteq> {None}"
    using set_remove_nth_subset Cons.prems(2) by fastforce
  show ?case using ne nil Cons.IH [OF len sub] by (simp add: Let_def)
qed

lemma receive_some_fails:
  "length pending = length gs \<Longrightarrow> Some e0 \<in> set pending \<Longrightarrow>
   \<exists>e. Some e \<in> set pending \<and>
       receive gs sched k pending start goal
         = Returns (Some (errGuardFailedFormat (ID start) (ID goal) e))"
proof (induction gs arbitrary: k pending)
  case Nil
  then show ?case by simp
next
  case (Cons g gs)
  let ?i = "sched k mod length pending"
  from Cons.prems have ne: "pending \<noteq> []" by auto
  then have i: "?i < length pending" by simp
  show ?case
  proof (cases "pending ! ?i")
    case None
    have len: "length (remove_nth ?i pending) = length gs"
      using i Cons.prems by (simp add: length_remove_nth)
    have keep: "Some e0 \<in> set (remove_nth ?i pending)"
      using set_remove_nth_keeps [OF i Cons.prems(2)] None by simp
    from Cons.IH [OF len keep, of "Suc k"] obtain e where
      e: "Some e \<in> set (remove_nth ?i pending)"
         "receive gs sched (Suc k) (remove_nth ?i pending) start goal
            = Returns (Some (errGuardFailedFormat (ID start) (ID goal) e))"
      by blast
    from e(1) have "Some e \<in> set pending" using set_remove_nth_subset by fastforce
    then show ?thesis using ne None e(2) by (auto simp: Let_def)
  next
    case (Some e)
    then have "Some e \<in> set pending" using i by (metis nth_mem)
    then show ?thesis using ne Some by (auto simp: Let_def)
  qed
qed

lemma AddRule_Map:
  "AddRule (Map_Ruleset m) t gs
     = Inr (Map_Ruleset (if gs = [] then m else m(t \<mapsto> index (Map_Ruleset m) t @ gs)))"
  by (induction gs arbitrary: m) (simp_all add: index_def)

lemma AddRule_other: "AddRule r t gs = Inr r' \<Longrightarrow> k \<noteq> t \<Longrightarrow> lookup r' k = lookup r k"
proof (cases r)
  case Nil_Ruleset
  assume "AddRule r t gs = Inr r'"
  with Nil_Ruleset have "r' = r" by (cases gs) auto
  then show ?thesis by simp
next
  case (Map_Ruleset m)
  assume a: "AddRule r t gs = Inr r'" and k: "k \<noteq> t"
  from a Map_Ruleset
  have "r' = Map_Ruleset (if gs = [] then m else m(t \<mapsto> index (Map_Ruleset m) t @ gs))"
    by (simp add: AddRule_Map)
  with k Map_Ruleset show ?thesis by simp
qed

lemma sublist_errGuardFailed: "sublist reason (errGuardFailedFormat a b reason)"
proof -
  have "sublist reason ((''Guard failed from '' @ a @ '' to '' @ b @ '': '') @ reason @ [])"
    by (rule sublist_appendI)
  then show ?thesis by (simp add: errGuardFailedFormat_def)
qed

lemma in_sends_iff:
  "e \<in> set (sends gs start goal) \<longleftrightarrow> (\<exists>g\<in>set gs. g start goal = Returns e)"
  by (simp add: set_sends)


lemma sublist_errNoRules:
  "sublist a (errNoRulesFormat a b) \<and> sublist b (errNoRulesFormat a b)"
  unfolding errNoRulesFormat_def
  by (metis sublist_appendI sublist_append_leftI sublist_order.order.refl sublist_append_rightI append.assoc)

lemma AddTransition_Map:
  "AddTransition (Map_Ruleset m) t
     = Inr (Map_Ruleset (m(t \<mapsto> index (Map_Ruleset m) t @ [AddTransition_guard t])))"
  by (simp add: AddTransition_def)

lemma AddTransition_other:
  "AddTransition r t = Inr r' \<Longrightarrow> k \<noteq> t \<Longrightarrow> lookup r' k = lookup r k"
  unfolding AddTransition_def by (rule AddRule_other)

lemma Permitted_cong:
  "lookup r' (T (ID start) (ID goal)) = lookup r (T (ID start) (ID goal)) \<Longrightarrow>
   Permitted r' sched start goal = Permitted r sched start goal"
  by (simp add: Permitted_def)

lemma Permitted_none:
  "lookup r (T (ID start) (ID goal)) = None \<Longrightarrow>
   Permitted r sched start goal = ([], Returns (Some (errNoRulesFormat (ID start) (ID goal))))"
  by (simp add: Permitted_def)

lemma Permitted_single_nil:
  "lookup r (T (ID start) (ID goal)) = Some [g] \<Longrightarrow> g start goal = Returns None \<Longrightarrow>
   Permitted r sched start goal = ([g], Returns None)"
  by (simp add: Permitted_def remove_nth_def)

lemma foldl_opts_Rules:
  "\<forall>opt\<in>set opts. \<forall>m. Rules (opt m) = Rules m \<Longrightarrow>
   Rules (foldl (\<lambda>m opt. opt m) m0 opts) = Rules m0"
  by (induction opts arbitrary: m0) simp_all

lemma CreateRuleset_two:
  "t1 \<noteq> t2 \<Longrightarrow>
   CreateRuleset [t1, t2]
     = Inr (Map_Ruleset [t1 \<mapsto> [AddTransition_guard t1], t2 \<mapsto> [AddTransition_guard t2]])"
  by (simp add: CreateRuleset_def AddTransition_Map index_def)

section \<open>The claims\<close>

text \<open>
  C1. For a Machine with a non-nil Ruleset, \<open>Transition(goal)\<close> sets the State to \<open>goal\<close>
  and returns nil exactly when \<open>Permitted(old State, goal)\<close> returns nil. When \<open>Permitted\<close>
  returns an error, \<open>Transition\<close> returns that same error and the machine is as before.
  A State that differs after the call comes from the successful path only, and \<open>Rules\<close>
  is never changed.
\<close>

theorem C1_Transition:
  "Rules m = Some r \<Longrightarrow>
     (Machine_Transition m sched goal = Inr (Returns (None, m\<lparr>State := goal\<rparr>))
        \<longleftrightarrow> snd (Permitted r sched (State m) goal) = Returns None)
     \<and> (\<forall>err. snd (Permitted r sched (State m) goal) = Returns (Some err)
            \<longrightarrow> Machine_Transition m sched goal = Inr (Returns (Some err, m)))
     \<and> (\<forall>e m'. Machine_Transition m sched goal = Inr (Returns (e, m')) \<and> State m' \<noteq> State m
            \<longrightarrow> e = None \<and> State m' = goal
                \<and> snd (Permitted r sched (State m) goal) = Returns None)
     \<and> (\<forall>e m'. Machine_Transition m sched goal = Inr (Returns (e, m'))
            \<longrightarrow> Rules m' = Rules m)"
  by (auto simp: Machine_Transition_def split: run.splits option.splits)

theorem C1_Transition_witness:
  "Rules \<lparr>Rules = Some (Map_Ruleset [T ''a'' ''b'' \<mapsto> [passing]]), State = NewState ''a''\<rparr>
     = Some (Map_Ruleset [T ''a'' ''b'' \<mapsto> [passing]])
   \<and> Machine_Transition
        \<lparr>Rules = Some (Map_Ruleset [T ''a'' ''b'' \<mapsto> [passing]]), State = NewState ''a''\<rparr>
        oldest_first (NewState ''b'')
      = Inr (Returns (None,
          \<lparr>Rules = Some (Map_Ruleset [T ''a'' ''b'' \<mapsto> [passing]]), State = NewState ''b''\<rparr>))
   \<and> Machine_Transition
        \<lparr>Rules = Some (Map_Ruleset [T ''a'' ''b'' \<mapsto> [passing]]), State = NewState ''a''\<rparr>
        oldest_first (NewState ''c'')
      = Inr (Returns (Some ''No rules found for a to c'',
          \<lparr>Rules = Some (Map_Ruleset [T ''a'' ''b'' \<mapsto> [passing]]), State = NewState ''a''\<rparr>))"
proof -
  let ?r = "Map_Ruleset [T ''a'' ''b'' \<mapsto> [passing]]"
  let ?m = "\<lparr>Rules = Some ?r, State = NewState ''a''\<rparr>"
  have rules: "Rules ?m = Some ?r" by simp
  have ok: "snd (Permitted ?r oldest_first (State ?m) (NewState ''b'')) = Returns None"
    by (simp add: Permitted_def passing_def remove_nth_def oldest_first_def)
  have no: "snd (Permitted ?r oldest_first (State ?m) (NewState ''c''))
              = Returns (Some ''No rules found for a to c'')"
    by (simp add: Permitted_def errNoRulesFormat_def)
  from C1_Transition [of ?m ?r oldest_first "NewState ''b''", OF rules] ok
  have t1: "Machine_Transition ?m oldest_first (NewState ''b'')
              = Inr (Returns (None, ?m\<lparr>State := NewState ''b''\<rparr>))"
    by blast
  from C1_Transition [of ?m ?r oldest_first "NewState ''c''", OF rules] no
  have t2: "Machine_Transition ?m oldest_first (NewState ''c'')
              = Inr (Returns (Some ''No rules found for a to c'', ?m))"
    by blast
  from rules t1 t2 show ?thesis by simp
qed

text \<open>
  C2. When the Ruleset has an entry for \<open>T{start.ID(), goal.ID()}\<close> with at least one guard
  and every guard returns: if every guard returns nil, \<open>Permitted\<close> returns nil, whatever
  the order of arrival; if some guard returns an error, \<open>Permitted\<close> returns the
  guard-failure error built from the reason of a guard of the entry that failed (the
  first failure to arrive), and that reason is part of the message. When the failing
  guards all give one reason, as when a single guard fails and the others succeed, the
  message is built from that reason.
\<close>

theorem C2_guards:
  assumes entry: "lookup r (T (ID start) (ID goal)) = Some gs"
    and nonempty: "gs \<noteq> []"
    and terminate: "\<forall>g\<in>set gs. g start goal \<noteq> Stalls"
  shows "((\<forall>g\<in>set gs. g start goal = Returns None)
            \<longrightarrow> snd (Permitted r sched start goal) = Returns None)
       \<and> ((\<exists>g\<in>set gs. \<exists>reason. g start goal = Returns (Some reason))
            \<longrightarrow> (\<exists>g\<in>set gs. \<exists>reason. g start goal = Returns (Some reason)
                   \<and> snd (Permitted r sched start goal)
                       = Returns (Some (errGuardFailedFormat (ID start) (ID goal) reason))
                   \<and> sublist reason (errGuardFailedFormat (ID start) (ID goal) reason)))
       \<and> (\<forall>reason.
             (\<exists>g\<in>set gs. g start goal = Returns (Some reason))
             \<and> (\<forall>g\<in>set gs. \<forall>e. g start goal = Returns (Some e) \<longrightarrow> e = reason)
            \<longrightarrow> snd (Permitted r sched start goal)
                  = Returns (Some (errGuardFailedFormat (ID start) (ID goal) reason)))"
proof -
  have len: "length (sends gs start goal) = length gs"
    using terminate by (rule length_sends)
  have run: "snd (Permitted r sched start goal)
               = receive gs sched 0 (sends gs start goal) start goal"
    using entry by (simp add: Permitted_def)
  have ok: "snd (Permitted r sched start goal) = Returns None"
    if all: "\<forall>g\<in>set gs. g start goal = Returns None"
  proof -
    have "set (sends gs start goal) \<subseteq> {None}"
    proof
      fix e assume "e \<in> set (sends gs start goal)"
      then obtain g where g: "g \<in> set gs" and ge: "g start goal = Returns e"
        unfolding in_sends_iff by blast
      from all g have "g start goal = Returns None" by (rule bspec)
      with ge have "Returns e = (Returns None :: error option run)" by (rule subst)
      then show "e \<in> {None}" by simp
    qed
    with len have "receive gs sched 0 (sends gs start goal) start goal = Returns None"
      by (rule receive_all_nil)
    with run show ?thesis by simp
  qed
  have bad: "\<exists>g\<in>set gs. \<exists>reason. g start goal = Returns (Some reason)
                   \<and> snd (Permitted r sched start goal)
                       = Returns (Some (errGuardFailedFormat (ID start) (ID goal) reason))
                   \<and> sublist reason (errGuardFailedFormat (ID start) (ID goal) reason)"
    if some: "\<exists>g\<in>set gs. \<exists>reason. g start goal = Returns (Some reason)"
  proof -
    from some obtain e0 where "Some e0 \<in> set (sends gs start goal)"
      unfolding in_sends_iff by blast
    with len have "\<exists>e. Some e \<in> set (sends gs start goal) \<and>
       receive gs sched 0 (sends gs start goal) start goal
         = Returns (Some (errGuardFailedFormat (ID start) (ID goal) e))"
      by (rule receive_some_fails)
    then obtain e where e: "Some e \<in> set (sends gs start goal)"
      and res: "receive gs sched 0 (sends gs start goal) start goal
         = Returns (Some (errGuardFailedFormat (ID start) (ID goal) e))"
      by blast
    from e obtain g where g: "g \<in> set gs" and ge: "g start goal = Returns (Some e)"
      unfolding in_sends_iff by blast
    from res run have "snd (Permitted r sched start goal)
          = Returns (Some (errGuardFailedFormat (ID start) (ID goal) e))"
      by simp
    with ge sublist_errGuardFailed [of e "ID start" "ID goal"]
    have "g start goal = Returns (Some e)
                   \<and> snd (Permitted r sched start goal)
                       = Returns (Some (errGuardFailedFormat (ID start) (ID goal) e))
                   \<and> sublist e (errGuardFailedFormat (ID start) (ID goal) e)"
      by (intro conjI)
    with g show ?thesis by blast
  qed
  have only: "snd (Permitted r sched start goal)
                  = Returns (Some (errGuardFailedFormat (ID start) (ID goal) reason))"
    if some: "\<exists>g\<in>set gs. g start goal = Returns (Some reason)"
    and same: "\<forall>g\<in>set gs. \<forall>e. g start goal = Returns (Some e) \<longrightarrow> e = reason"
    for reason
  proof -
    from some have "\<exists>g\<in>set gs. \<exists>reason. g start goal = Returns (Some reason)"
      by blast
    from bad [OF this] obtain g e where g: "g \<in> set gs"
      and ge: "g start goal = Returns (Some e)"
      and res: "snd (Permitted r sched start goal)
                  = Returns (Some (errGuardFailedFormat (ID start) (ID goal) e))"
      by blast
    from same g ge have "e = reason" by blast
    with res show ?thesis by simp
  qed
  from ok bad only show ?thesis by blast
qed


theorem C2_guards_witness:
  "lookup (Map_Ruleset [T ''a'' ''b'' \<mapsto> [passing, failing ''no'', passing]])
      (T (ID (NewState ''a'')) (ID (NewState ''b''))) = Some [passing, failing ''no'', passing]
   \<and> [passing, failing ''no'', passing] \<noteq> []
   \<and> passing (NewState ''a'') (NewState ''b'') \<noteq> Stalls
   \<and> failing ''no'' (NewState ''a'') (NewState ''b'') \<noteq> Stalls
   \<and> (\<exists>g\<in>set [passing, failing ''no'', passing]. \<exists>reason.
          g (NewState ''a'') (NewState ''b'') = Returns (Some reason))
   \<and> snd (Permitted (Map_Ruleset [T ''a'' ''b'' \<mapsto> [passing, failing ''no'', passing]])
            second_first (NewState ''a'') (NewState ''b''))
       = Returns (Some ''Guard failed from a to b: no'')"
proof -
  let ?gs = "[passing, failing ''no'', passing]"
  let ?r = "Map_Ruleset [T ''a'' ''b'' \<mapsto> ?gs]"
  let ?a = "NewState ''a''"
  let ?b = "NewState ''b''"
  have entry: "lookup ?r (T (ID ?a) (ID ?b)) = Some ?gs"
    by simp
  have nonempty: "?gs \<noteq> []" by simp
  have terminate: "\<forall>g\<in>set ?gs. g ?a ?b \<noteq> Stalls"
    by (simp add: passing_def failing_def)
  have "failing ''no'' ?a ?b = Returns (Some ''no'')"
    by (simp add: failing_def)
  then have fails: "\<exists>g\<in>set ?gs. \<exists>reason. g ?a ?b = Returns (Some reason)"
    by simp
  note C2 = C2_guards [of ?r ?a ?b ?gs second_first, OF entry nonempty terminate]
  from C2 have "(\<exists>g\<in>set ?gs. \<exists>reason. g ?a ?b = Returns (Some reason))
      \<longrightarrow> (\<exists>g\<in>set ?gs. \<exists>reason. g ?a ?b = Returns (Some reason)
          \<and> snd (Permitted ?r second_first ?a ?b)
              = Returns (Some (errGuardFailedFormat (ID ?a) (ID ?b) reason))
          \<and> sublist reason (errGuardFailedFormat (ID ?a) (ID ?b) reason))"
    by (elim conjE)
  from this fails obtain g reason where
      g: "g \<in> set ?gs" and ge: "g ?a ?b = Returns (Some reason)"
    and p: "snd (Permitted ?r second_first ?a ?b)
              = Returns (Some (errGuardFailedFormat (ID ?a) (ID ?b) reason))"
    by blast
  from g have "g = passing \<or> g = failing ''no'' \<or> g = passing" by simp
  then have "g = passing \<or> g = failing ''no''" by blast
  then have "reason = ''no''"
  proof
    assume "g = passing"
    with ge have "passing ?a ?b = Returns (Some reason)" by simp
    then show ?thesis by (simp add: passing_def)
  next
    assume "g = failing ''no''"
    with ge have "failing ''no'' ?a ?b = Returns (Some reason)" by simp
    then show ?thesis by (simp add: failing_def)
  qed
  with p have res: "snd (Permitted ?r second_first ?a ?b)
       = Returns (Some ''Guard failed from a to b: no'')"
    by (simp add: errGuardFailedFormat_def)
  have p_ret: "passing ?a ?b \<noteq> Stalls" by (simp add: passing_def)
  have f_ret: "failing ''no'' ?a ?b \<noteq> Stalls" by (simp add: failing_def)
  show ?thesis
    using entry nonempty p_ret f_ret fails res by (intro conjI)
qed

text \<open>
  C3. When the Ruleset has no entry for \<open>T{start.ID(), goal.ID()}\<close>, \<open>Permitted\<close> starts no
  guard and returns the no-rules error, whose message holds both identities and which is
  not a guard-failure error.
\<close>

theorem C3_no_rules:
  "lookup r (T (ID start) (ID goal)) = None \<Longrightarrow>
     Permitted r sched start goal = ([], Returns (Some (errNoRulesFormat (ID start) (ID goal))))
     \<and> sublist (ID start) (errNoRulesFormat (ID start) (ID goal))
     \<and> sublist (ID goal) (errNoRulesFormat (ID start) (ID goal))
     \<and> (\<forall>a b reason. errNoRulesFormat (ID start) (ID goal) \<noteq> errGuardFailedFormat a b reason)"
  using sublist_errNoRules [of "ID start" "ID goal"]
  by (simp add: Permitted_def errNoRules_not_errGuardFailed)

theorem C3_no_rules_witness:
  "lookup (Map_Ruleset [T ''x'' ''y'' \<mapsto> [stalling]]) (T (ID (NewState ''a'')) (ID (NewState ''b''))) = None
   \<and> Permitted (Map_Ruleset [T ''x'' ''y'' \<mapsto> [stalling]]) oldest_first (NewState ''a'') (NewState ''b'')
       = ([], Returns (Some ''No rules found for a to b''))"
  using C3_no_rules [of "Map_Ruleset [T ''x'' ''y'' \<mapsto> [stalling]]" "NewState ''a''" "NewState ''b''" oldest_first]
  by (simp add: errNoRulesFormat_def)

text \<open>
  C4, as stated, at concrete inputs. With only \<open>T{"a", "b"}\<close> registered by
  \<open>AddTransition\<close>, \<open>Permitted\<close> from \<open>"c"\<close> to \<open>"b"\<close> starts no guard and returns the no-rules
  error, which is not the guard-failure error that wraps the default guard's reason. With
  a transition of another type registered, \<open>Permitted\<close> from its Origin to its Exit returns
  the no-rules error too.
\<close>

theorem C4_counterexample:
  "AddTransition (Map_Ruleset Map.empty) (T ''a'' ''b'')
     = Inr (Map_Ruleset [T ''a'' ''b'' \<mapsto> [AddTransition_guard (T ''a'' ''b'')]])
   \<and> Permitted (Map_Ruleset [T ''a'' ''b'' \<mapsto> [AddTransition_guard (T ''a'' ''b'')]])
        oldest_first (NewState ''c'') (NewState ''b'')
       = ([], Returns (Some ''No rules found for c to b''))
   \<and> ''No rules found for c to b''
       \<noteq> errGuardFailedFormat ''c'' ''b'' (errTransitionFormat ''c'' ''b'')
   \<and> AddTransition (Map_Ruleset Map.empty) (Other 0 (NewState ''a'') (NewState ''b''))
     = Inr (Map_Ruleset [Other 0 (NewState ''a'') (NewState ''b'')
              \<mapsto> [AddTransition_guard (Other 0 (NewState ''a'') (NewState ''b''))]])
   \<and> Permitted (Map_Ruleset [Other 0 (NewState ''a'') (NewState ''b'')
              \<mapsto> [AddTransition_guard (Other 0 (NewState ''a'') (NewState ''b''))]])
        oldest_first (NewState ''a'') (NewState ''b'')
       = ([], Returns (Some ''No rules found for a to b''))"
  by (simp add: Permitted_def AddTransition_def index_def errNoRulesFormat_def
      errGuardFailedFormat_def)

text \<open>
  C4, amended. For \<open>t = T{a, b}\<close> registered by \<open>AddTransition\<close> into a Ruleset with no entry
  for it: \<open>Permitted(State(a), State(b))\<close> starts the one default guard and returns nil.
  \<open>Permitted(State(x), State(b))\<close> with \<open>x \<noteq> a\<close> looks up \<open>T{x, b}\<close>, a different key, so it
  answers as it did before \<open>t\<close> was registered: with the no-rules error when \<open>T{x, b}\<close> has
  no entry.
\<close>

theorem C4_default_rule:
  "m (T a b) = None \<longrightarrow>
     (\<exists>r'. AddTransition (Map_Ruleset m) (T a b) = Inr r'
        \<and> Permitted r' sched (NewState a) (NewState b)
            = ([AddTransition_guard (T a b)], Returns None)
        \<and> (\<forall>x. x \<noteq> a \<longrightarrow>
              Permitted r' sched (NewState x) (NewState b)
                = Permitted (Map_Ruleset m) sched (NewState x) (NewState b))
        \<and> (\<forall>x. x \<noteq> a \<and> m (T x b) = None \<longrightarrow>
              Permitted r' sched (NewState x) (NewState b)
                = ([], Returns (Some (errNoRulesFormat x b)))))"
proof
  let ?g = "AddTransition_guard (T a b)"
  let ?r' = "Map_Ruleset (m(T a b \<mapsto> [?g]))"
  assume none: "m (T a b) = None"
  then have reg: "AddTransition (Map_Ruleset m) (T a b) = Inr ?r'"
    by (simp add: AddTransition_Map index_def)
  have entry: "lookup ?r' (T (ID (NewState a)) (ID (NewState b))) = Some [?g]"
    by simp
  have pass: "?g (NewState a) (NewState b) = Returns None"
    by (simp add: AddTransition_guard_def)
  from entry pass
  have own: "Permitted ?r' sched (NewState a) (NewState b) = ([?g], Returns None)"
    by (rule Permitted_single_nil)
  have other: "Permitted ?r' sched (NewState x) (NewState b)
                = Permitted (Map_Ruleset m) sched (NewState x) (NewState b)"
    if "x \<noteq> a" for x
  proof (rule Permitted_cong)
    from that show "lookup ?r' (T (ID (NewState x)) (ID (NewState b)))
        = lookup (Map_Ruleset m) (T (ID (NewState x)) (ID (NewState b)))"
      by simp
  qed
  have norule: "Permitted ?r' sched (NewState x) (NewState b)
                = ([], Returns (Some (errNoRulesFormat x b)))"
    if "x \<noteq> a \<and> m (T x b) = None" for x
  proof -
    from that have "lookup ?r' (T (ID (NewState x)) (ID (NewState b))) = None"
      by simp
    then have "Permitted ?r' sched (NewState x) (NewState b)
        = ([], Returns (Some (errNoRulesFormat (ID (NewState x)) (ID (NewState b)))))"
      by (rule Permitted_none)
    then show ?thesis by simp
  qed
  from reg own other norule
  show "\<exists>r'. AddTransition (Map_Ruleset m) (T a b) = Inr r'
        \<and> Permitted r' sched (NewState a) (NewState b)
            = ([AddTransition_guard (T a b)], Returns None)
        \<and> (\<forall>x. x \<noteq> a \<longrightarrow>
              Permitted r' sched (NewState x) (NewState b)
                = Permitted (Map_Ruleset m) sched (NewState x) (NewState b))
        \<and> (\<forall>x. x \<noteq> a \<and> m (T x b) = None \<longrightarrow>
              Permitted r' sched (NewState x) (NewState b)
                = ([], Returns (Some (errNoRulesFormat x b))))"
    by (intro exI [of _ ?r'] conjI allI impI)
qed

theorem C4_default_rule_witness:
  "Map.empty (T ''a'' ''b'') = (None :: Guard list option)
   \<and> ''c'' \<noteq> ''a'' \<and> Map.empty (T ''c'' ''b'') = (None :: Guard list option)
   \<and> (\<exists>r'. AddTransition (Map_Ruleset Map.empty) (T ''a'' ''b'') = Inr r'
        \<and> Permitted r' second_first (NewState ''a'') (NewState ''b'')
            = ([AddTransition_guard (T ''a'' ''b'')], Returns None)
        \<and> Permitted r' second_first (NewState ''c'') (NewState ''b'')
            = ([], Returns (Some ''No rules found for c to b'')))"
proof -
  have none: "Map.empty (T ''a'' ''b'') = (None :: Guard list option)" by simp
  have x: "''c'' \<noteq> ''a'' \<and> Map.empty (T ''c'' ''b'') = (None :: Guard list option)" by simp
  from C4_default_rule [of Map.empty "''a''" "''b''" second_first, THEN mp, OF none]
  obtain r' where reg: "AddTransition (Map_Ruleset Map.empty) (T ''a'' ''b'') = Inr r'"
    and own: "Permitted r' second_first (NewState ''a'') (NewState ''b'')
            = ([AddTransition_guard (T ''a'' ''b'')], Returns None)"
    and norule: "\<forall>x. x \<noteq> ''a'' \<and> Map.empty (T x ''b'') = (None :: Guard list option) \<longrightarrow>
              Permitted r' second_first (NewState x) (NewState ''b'')
                = ([], Returns (Some (errNoRulesFormat x ''b'')))"
    by (elim exE conjE)
  from norule have "''c'' \<noteq> ''a'' \<and> Map.empty (T ''c'' ''b'') = (None :: Guard list option) \<longrightarrow>
      Permitted r' second_first (NewState ''c'') (NewState ''b'')
        = ([], Returns (Some (errNoRulesFormat ''c'' ''b'')))"
    by (rule spec)
  from this x have "Permitted r' second_first (NewState ''c'') (NewState ''b'')
        = ([], Returns (Some (errNoRulesFormat ''c'' ''b'')))"
    by (rule mp)
  then have no: "Permitted r' second_first (NewState ''c'') (NewState ''b'')
        = ([], Returns (Some ''No rules found for c to b''))"
    by (simp only: errNoRulesFormat_def append.simps)
  from reg own no
  have "\<exists>r'. AddTransition (Map_Ruleset Map.empty) (T ''a'' ''b'') = Inr r'
        \<and> Permitted r' second_first (NewState ''a'') (NewState ''b'')
            = ([AddTransition_guard (T ''a'' ''b'')], Returns None)
        \<and> Permitted r' second_first (NewState ''c'') (NewState ''b'')
            = ([], Returns (Some ''No rules found for c to b''))"
    by (intro exI [of _ r'] conjI)
  with none x show ?thesis by (intro conjI) (elim conjE, assumption)+
qed

text \<open>
  C5. \<open>AddTransition(t)\<close> on a Ruleset that is not nil appends exactly one guard to the
  list of \<open>t\<close> and changes no other entry. That guard returns the error formatted by
  \<open>errTransitionFormat\<close> exactly when the identity of \<open>start\<close> differs from the identity of
  \<open>t.Origin()\<close>, and nil exactly when they are equal, whatever \<open>goal\<close> is.
\<close>

theorem C5_AddTransition:
  "AddTransition (Map_Ruleset m) t
     = Inr (Map_Ruleset (m(t \<mapsto> index (Map_Ruleset m) t @ [AddTransition_guard t])))
   \<and> (\<forall>start goal.
        (AddTransition_guard t start goal
           = Returns (Some (errTransitionFormat (ID start) (ID goal)))
         \<longleftrightarrow> ID start \<noteq> ID (Origin t))
      \<and> (AddTransition_guard t start goal = Returns None \<longleftrightarrow> ID start = ID (Origin t)))"
  by (simp add: AddTransition_Map AddTransition_guard_def)

text \<open>
  C6. The scenario of \<open>CreateRuleset(T{"idle","running"}, T{"running","done"})\<close> with a
  Machine at \<open>"idle"\<close>: to \<open>"running"\<close> succeeds, then to \<open>"done"\<close> succeeds, then to
  \<open>"idle"\<close> returns the no-rules error and leaves the State at \<open>"done"\<close>, under every schedule.
\<close>

theorem C6_scenario:
  "\<exists>r. CreateRuleset [T ''idle'' ''running'', T ''running'' ''done''] = Inr r
     \<and> Machine_Transition \<lparr>Rules = Some r, State = NewState ''idle''\<rparr> sched (NewState ''running'')
         = Inr (Returns (None, \<lparr>Rules = Some r, State = NewState ''running''\<rparr>))
     \<and> Machine_Transition \<lparr>Rules = Some r, State = NewState ''running''\<rparr> sched (NewState ''done'')
         = Inr (Returns (None, \<lparr>Rules = Some r, State = NewState ''done''\<rparr>))
     \<and> Machine_Transition \<lparr>Rules = Some r, State = NewState ''done''\<rparr> sched (NewState ''idle'')
         = Inr (Returns (Some ''No rules found for done to idle'',
                  \<lparr>Rules = Some r, State = NewState ''done''\<rparr>))"
proof -
  let ?t1 = "T ''idle'' ''running''"
  let ?t2 = "T ''running'' ''done''"
  let ?r = "Map_Ruleset [?t1 \<mapsto> [AddTransition_guard ?t1], ?t2 \<mapsto> [AddTransition_guard ?t2]]"
  have "?t1 \<noteq> ?t2" by simp
  then have made: "CreateRuleset [?t1, ?t2] = Inr ?r"
    by (rule CreateRuleset_two)
  have p1: "snd (Permitted ?r sched (NewState ''idle'') (NewState ''running'')) = Returns None"
    by (simp add: Permitted_def AddTransition_guard_def remove_nth_def)
  have p2: "snd (Permitted ?r sched (NewState ''running'') (NewState ''done'')) = Returns None"
    by (simp add: Permitted_def AddTransition_guard_def remove_nth_def)
  have p3: "snd (Permitted ?r sched (NewState ''done'') (NewState ''idle''))
              = Returns (Some ''No rules found for done to idle'')"
    by (simp add: Permitted_def errNoRulesFormat_def)
  have m1: "Machine_Transition \<lparr>Rules = Some ?r, State = NewState ''idle''\<rparr> sched
              (NewState ''running'')
         = Inr (Returns (None, \<lparr>Rules = Some ?r, State = NewState ''running''\<rparr>))"
    using p1 by (simp add: Machine_Transition_def)
  have m2: "Machine_Transition \<lparr>Rules = Some ?r, State = NewState ''running''\<rparr> sched
              (NewState ''done'')
         = Inr (Returns (None, \<lparr>Rules = Some ?r, State = NewState ''done''\<rparr>))"
    using p2 by (simp add: Machine_Transition_def)
  have m3: "Machine_Transition \<lparr>Rules = Some ?r, State = NewState ''done''\<rparr> sched
              (NewState ''idle'')
         = Inr (Returns (Some ''No rules found for done to idle'',
                  \<lparr>Rules = Some ?r, State = NewState ''done''\<rparr>))"
    using p3 by (simp add: Machine_Transition_def)
  from made m1 m2 m3 show ?thesis
    by (intro exI [of _ ?r] conjI)
qed

text \<open>
  C8. \<open>Permitted\<close> looks up the struct \<open>T{start.ID(), goal.ID()}\<close> only. Guards registered
  under a key of another dynamic type make no difference to it, and when that key is the
  only one for the pair (its Origin and Exit are \<open>start\<close> and \<open>goal\<close>, and \<open>T\<close> has no entry),
  \<open>Permitted\<close> starts no guard and returns the no-rules error.
\<close>

theorem C8_other_key:
  "(\<forall>a b. t \<noteq> T a b) \<and> AddRule r t gs = Inr r' \<longrightarrow>
     Permitted r' sched start goal = Permitted r sched start goal
     \<and> (Origin t = start \<and> Exit t = goal \<and> lookup r (T (ID start) (ID goal)) = None \<longrightarrow>
          Permitted r' sched start goal
            = ([], Returns (Some (errNoRulesFormat (ID start) (ID goal)))))"
proof (intro impI)
  assume a: "(\<forall>a b. t \<noteq> T a b) \<and> AddRule r t gs = Inr r'"
  then have ne: "T (ID start) (ID goal) \<noteq> t" by metis
  from a have reg: "AddRule r t gs = Inr r'" by (rule conjunct2)
  from reg ne have same: "lookup r' (T (ID start) (ID goal)) = lookup r (T (ID start) (ID goal))"
    by (rule AddRule_other)
  then have eq: "Permitted r' sched start goal = Permitted r sched start goal"
    by (rule Permitted_cong)
  have "Permitted r' sched start goal
            = ([], Returns (Some (errNoRulesFormat (ID start) (ID goal))))"
    if "lookup r (T (ID start) (ID goal)) = None"
    using that eq by (simp add: Permitted_none)
  with eq show "Permitted r' sched start goal = Permitted r sched start goal
     \<and> (Origin t = start \<and> Exit t = goal \<and> lookup r (T (ID start) (ID goal)) = None \<longrightarrow>
          Permitted r' sched start goal
            = ([], Returns (Some (errNoRulesFormat (ID start) (ID goal)))))"
    by blast
qed

theorem C8_other_key_witness:
  "(\<forall>a b. Other 0 (NewState ''a'') (NewState ''b'') \<noteq> T a b)
   \<and> AddRule (Map_Ruleset Map.empty) (Other 0 (NewState ''a'') (NewState ''b'')) [passing]
       = Inr (Map_Ruleset [Other 0 (NewState ''a'') (NewState ''b'') \<mapsto> [passing]])
   \<and> Origin (Other 0 (NewState ''a'') (NewState ''b'')) = NewState ''a''
   \<and> Exit (Other 0 (NewState ''a'') (NewState ''b'')) = NewState ''b''
   \<and> lookup (Map_Ruleset Map.empty) (T (ID (NewState ''a'')) (ID (NewState ''b''))) = None
   \<and> Permitted (Map_Ruleset [Other 0 (NewState ''a'') (NewState ''b'') \<mapsto> [passing]])
        oldest_first (NewState ''a'') (NewState ''b'')
      = ([], Returns (Some ''No rules found for a to b''))"
proof -
  let ?t = "Other 0 (NewState ''a'') (NewState ''b'')"
  let ?a = "NewState ''a''"
  let ?b = "NewState ''b''"
  let ?r = "Map_Ruleset Map.empty"
  let ?r' = "Map_Ruleset [?t \<mapsto> [passing]]"
  have other: "\<forall>a b. ?t \<noteq> T a b" by simp
  have reg: "AddRule ?r ?t [passing] = Inr ?r'" by (simp add: index_def)
  have ends: "Origin ?t = ?a \<and> Exit ?t = ?b \<and> lookup ?r (T (ID ?a) (ID ?b)) = None"
    by simp
  from other reg have pre: "(\<forall>a b. ?t \<noteq> T a b) \<and> AddRule ?r ?t [passing] = Inr ?r'"
    by (rule conjI)
  from C8_other_key [of ?t ?r "[passing]" ?r' oldest_first ?a ?b, THEN mp, OF pre]
  have "Origin ?t = ?a \<and> Exit ?t = ?b \<and> lookup ?r (T (ID ?a) (ID ?b)) = None \<longrightarrow>
          Permitted ?r' oldest_first ?a ?b
            = ([], Returns (Some (errNoRulesFormat (ID ?a) (ID ?b))))"
    by (rule conjunct2)
  from this ends have "Permitted ?r' oldest_first ?a ?b
          = ([], Returns (Some (errNoRulesFormat (ID ?a) (ID ?b))))"
    by (rule mp)
  then have res: "Permitted ?r' oldest_first ?a ?b
          = ([], Returns (Some ''No rules found for a to b''))"
    by (simp only: errNoRulesFormat_def State.sel append.simps)
  from other reg ends res show ?thesis by (intro conjI) (elim conjE, assumption)+
qed

text \<open>
  C9. \<open>AddRule\<close> with no guards returns the Ruleset as it was; a transition that has no
  entry still has none, and \<open>Permitted\<close> answers with the no-rules error for it.
\<close>

theorem C9_AddRule_no_guards:
  "AddRule r t [] = Inr r \<and>
   (\<forall>r'. AddRule r (T a b) [] = Inr r' \<and> lookup r (T a b) = None \<longrightarrow>
      lookup r' (T a b) = None
      \<and> Permitted r' sched (NewState a) (NewState b)
          = ([], Returns (Some (errNoRulesFormat a b))))"
  by (simp add: Permitted_def)

theorem C9_AddRule_no_guards_witness:
  "AddRule (Map_Ruleset Map.empty) (T ''a'' ''b'') [] = Inr (Map_Ruleset Map.empty)
   \<and> lookup (Map_Ruleset Map.empty) (T ''a'' ''b'') = None
   \<and> Permitted (Map_Ruleset Map.empty) oldest_first (NewState ''a'') (NewState ''b'')
        = ([], Returns (Some ''No rules found for a to b''))"
proof -
  let ?r = "Map_Ruleset Map.empty"
  have reg: "AddRule ?r (T ''a'' ''b'') [] = Inr ?r" by simp
  have none: "lookup ?r (T ''a'' ''b'') = None" by simp
  from C9_AddRule_no_guards [of ?r "T ''a'' ''b''" "''a''" "''b''" oldest_first]
  have "\<forall>r'. AddRule ?r (T ''a'' ''b'') [] = Inr r' \<and> lookup ?r (T ''a'' ''b'') = None \<longrightarrow>
      lookup r' (T ''a'' ''b'') = None
      \<and> Permitted r' oldest_first (NewState ''a'') (NewState ''b'')
          = ([], Returns (Some (errNoRulesFormat ''a'' ''b'')))"
    by (rule conjunct2)
  then have "AddRule ?r (T ''a'' ''b'') [] = Inr ?r \<and> lookup ?r (T ''a'' ''b'') = None \<longrightarrow>
      lookup ?r (T ''a'' ''b'') = None
      \<and> Permitted ?r oldest_first (NewState ''a'') (NewState ''b'')
          = ([], Returns (Some (errNoRulesFormat ''a'' ''b'')))"
    by (rule spec)
  with reg none have "Permitted ?r oldest_first (NewState ''a'') (NewState ''b'')
          = ([], Returns (Some (errNoRulesFormat ''a'' ''b'')))"
    by blast
  then have res: "Permitted ?r oldest_first (NewState ''a'') (NewState ''b'')
          = ([], Returns (Some ''No rules found for a to b''))"
    by (simp only: errNoRulesFormat_def append.simps)
  from reg none res show ?thesis by (intro conjI)
qed

text \<open>
  C10. \<open>New\<close> with no options, or with options that leave \<open>Rules\<close> alone, gives a Machine
  whose \<open>Rules\<close> is nil, and \<open>Transition\<close> on it panics with a nil dereference. With
  \<open>Rules\<close> non-nil \<open>Transition\<close> does not panic, and a rejection by \<open>Permitted\<close> is the
  returned error, the machine unchanged.
\<close>

theorem C10_nil_Rules:
  "Rules (New zero []) = None
   \<and> ((\<forall>opt\<in>set opts. \<forall>m. Rules (opt m) = Rules m) \<longrightarrow>
        Rules (New zero opts) = None
        \<and> Machine_Transition (New zero opts) sched goal = Inl NilDereference)
   \<and> (Rules m = Some r \<longrightarrow>
        (\<forall>p. Machine_Transition m sched goal \<noteq> Inl p)
        \<and> (\<forall>err. snd (Permitted r sched (State m) goal) = Returns (Some err) \<longrightarrow>
              Machine_Transition m sched goal = Inr (Returns (Some err, m))))"
proof (intro conjI impI)
  show "Rules (New zero []) = None" by (simp add: New_def)
next
  assume keep: "\<forall>opt\<in>set opts. \<forall>m. Rules (opt m) = Rules m"
  then show nil: "Rules (New zero opts) = None"
    unfolding New_def by (simp add: foldl_opts_Rules)
  then show "Machine_Transition (New zero opts) sched goal = Inl NilDereference"
    by (simp add: Machine_Transition_def)
next
  assume "Rules m = Some r"
  then show "\<forall>p. Machine_Transition m sched goal \<noteq> Inl p"
    by (simp add: Machine_Transition_def)
next
  assume "Rules m = Some r"
  then show "\<forall>err. snd (Permitted r sched (State m) goal) = Returns (Some err) \<longrightarrow>
              Machine_Transition m sched goal = Inr (Returns (Some err, m))"
    by (simp add: Machine_Transition_def)
qed

theorem C10_nil_Rules_witness:
  "(\<forall>m. Rules (WithState (NewState ''idle'') m) = Rules m)
   \<and> Machine_Transition (New (NewState []) [WithState (NewState ''idle'')])
        oldest_first (NewState ''running'') = Inl NilDereference
   \<and> Rules \<lparr>Rules = Some Nil_Ruleset, State = NewState ''a''\<rparr> = Some Nil_Ruleset
   \<and> snd (Permitted Nil_Ruleset oldest_first
             (State \<lparr>Rules = Some Nil_Ruleset, State = NewState ''a''\<rparr>) (NewState ''b''))
        = Returns (Some ''No rules found for a to b'')
   \<and> Machine_Transition \<lparr>Rules = Some Nil_Ruleset, State = NewState ''a''\<rparr>
        oldest_first (NewState ''b'')
      = Inr (Returns (Some ''No rules found for a to b'',
               \<lparr>Rules = Some Nil_Ruleset, State = NewState ''a''\<rparr>))"
proof -
  let ?opts = "[WithState (NewState ''idle'')]"
  let ?m = "\<lparr>Rules = Some Nil_Ruleset, State = NewState ''a''\<rparr>"
  have keep: "\<forall>opt\<in>set ?opts. \<forall>m. Rules (opt m) = Rules m"
    by (simp add: WithState_def)
  have rules: "Rules ?m = Some Nil_Ruleset" by simp
  have no: "snd (Permitted Nil_Ruleset oldest_first (State ?m) (NewState ''b''))
              = Returns (Some ''No rules found for a to b'')"
    by (simp add: Permitted_def errNoRulesFormat_def)
  note C10 = C10_nil_Rules [of "NewState []" ?opts oldest_first "NewState ''running''"
      ?m Nil_Ruleset]
  from C10 have "(\<forall>opt\<in>set ?opts. \<forall>m. Rules (opt m) = Rules m) \<longrightarrow>
        Rules (New (NewState []) ?opts) = None
        \<and> Machine_Transition (New (NewState []) ?opts) oldest_first (NewState ''running'')
            = Inl NilDereference"
    by (elim conjE)
  from this keep have "Rules (New (NewState []) ?opts) = None
        \<and> Machine_Transition (New (NewState []) ?opts) oldest_first (NewState ''running'')
            = Inl NilDereference"
    by (rule mp)
  then have crash: "Machine_Transition (New (NewState []) ?opts) oldest_first (NewState ''running'')
                 = Inl NilDereference"
    by (rule conjunct2)
  note C10' = C10_nil_Rules [of "NewState []" ?opts oldest_first "NewState ''b''"
      ?m Nil_Ruleset]
  from C10' have "Rules ?m = Some Nil_Ruleset \<longrightarrow>
        (\<forall>p. Machine_Transition ?m oldest_first (NewState ''b'') \<noteq> Inl p)
        \<and> (\<forall>err. snd (Permitted Nil_Ruleset oldest_first (State ?m) (NewState ''b''))
                  = Returns (Some err) \<longrightarrow>
              Machine_Transition ?m oldest_first (NewState ''b'') = Inr (Returns (Some err, ?m)))"
    by (elim conjE)
  from this rules have "(\<forall>p. Machine_Transition ?m oldest_first (NewState ''b'') \<noteq> Inl p)
        \<and> (\<forall>err. snd (Permitted Nil_Ruleset oldest_first (State ?m) (NewState ''b''))
                  = Returns (Some err) \<longrightarrow>
              Machine_Transition ?m oldest_first (NewState ''b'') = Inr (Returns (Some err, ?m)))"
    by (rule mp)
  then have "\<forall>err. snd (Permitted Nil_Ruleset oldest_first (State ?m) (NewState ''b''))
                  = Returns (Some err) \<longrightarrow>
              Machine_Transition ?m oldest_first (NewState ''b'') = Inr (Returns (Some err, ?m))"
    by (rule conjunct2)
  then have "snd (Permitted Nil_Ruleset oldest_first (State ?m) (NewState ''b''))
               = Returns (Some ''No rules found for a to b'')
          \<longrightarrow> Machine_Transition ?m oldest_first (NewState ''b'')
               = Inr (Returns (Some ''No rules found for a to b'', ?m))"
    by (rule spec)
  from this no have rej: "Machine_Transition ?m oldest_first (NewState ''b'')
               = Inr (Returns (Some ''No rules found for a to b'', ?m))"
    by (rule mp)
  have keep1: "\<forall>m. Rules (WithState (NewState ''idle'') m) = Rules m"
    by (simp add: WithState_def)
  from keep1 crash rules no rej show ?thesis by (intro conjI)
qed

end
